theory Spec2Isabelle
  imports Complex_Main
begin

section \<open>Strings and characters of the host language\<close>

text \<open>
  The service is TypeScript. A string is modelled as a \<open>char list\<close> whose characters are
  the code units \<open>0..255\<close> (ASCII and Latin-1); code units above 255 are outside the model.
  A number is modelled as an exact real number: \<open>parseFloat\<close> of a decimal literal is the
  value the literal denotes and \<open>Math.round\<close> is \<open>floor (x + 1/2)\<close>; binary rounding of
  doubles, \<open>NaN\<close> and infinities are outside the model (\<open>NaN\<close> appears only as the
  failure of \<open>parseFloat\<close>, which is \<open>None\<close>). The model and the code therefore agree on an
  amount only where the double arithmetic is exact to the cent: the code reads \<open>1.005\<close> as
  \<open>1\<close> (the product \<open>1.005 * 100\<close> is just below \<open>100.5\<close> in doubles) where the exact value
  rounds to \<open>1.01\<close>, and a cell of several hundred digits as \<open>Infinity\<close>. Properties below
  that depend on the digits of an amount are stated on concrete inputs where both agree;
  the general properties concern the sign of an amount and the text it is read from,
  which rounding to nearest and overflow do not change.
  \<open>undefined\<close> string cells are modelled as the empty string: every read of a cell in the
  source is of the form \<open>c || ""\<close>, \<open>!c\<close>, \<open>c && c.trim()\<close> or goes through \<open>join\<close>, which
  do not distinguish the two.
\<close>

definition code :: "char \<Rightarrow> nat" where
  "code c = of_char c"

definition is_digit :: "char \<Rightarrow> bool" where
  "is_digit c = (48 \<le> code c \<and> code c \<le> 57)"

definition is_upper :: "char \<Rightarrow> bool" where
  "is_upper c = (65 \<le> code c \<and> code c \<le> 90)"

definition is_lower :: "char \<Rightarrow> bool" where
  "is_lower c = (97 \<le> code c \<and> code c \<le> 122)"

definition is_alpha :: "char \<Rightarrow> bool" where
  "is_alpha c = (is_upper c \<or> is_lower c)"

text \<open>The class \<open>\w\<close> that decides word boundaries: letters, digits and underscore.\<close>

definition is_word :: "char \<Rightarrow> bool" where
  "is_word c = (is_alpha c \<or> is_digit c \<or> c = CHR ''_'')"

text \<open>The class \<open>\s\<close> (and what \<open>trim\<close> removes) among the code units below 256:
  tab, line feed, vertical tab, form feed, carriage return, space, no-break space.\<close>

definition is_space :: "char \<Rightarrow> bool" where
  "is_space c = ((9 \<le> code c \<and> code c \<le> 13) \<or> code c = 32 \<or> code c = 160)"

text \<open>Character translation by a table: the image of the first listed occurrence,
  the character itself when it is not listed.\<close>

fun translate :: "(char \<times> char) list \<Rightarrow> char \<Rightarrow> char" where
  "translate [] c = c"
| "translate (p # ps) c = (if c = fst p then snd p else translate ps c)"

text \<open>\<open>toLowerCase\<close> on one code unit: \<open>A..Z\<close> and the Latin-1 capitals
  \<open>0xC0..0xDE\<close> (without the multiplication sign \<open>0xD7\<close>) move up by 32.\<close>

definition ascii_to_lower :: "(char \<times> char) list" where
  "ascii_to_lower = zip ''ABCDEFGHIJKLMNOPQRSTUVWXYZ'' ''abcdefghijklmnopqrstuvwxyz''"

definition latin1_to_lower :: "(char \<times> char) list" where
  "latin1_to_lower =
     zip [CHR 0xC0, CHR 0xC1, CHR 0xC2, CHR 0xC3, CHR 0xC4, CHR 0xC5, CHR 0xC6, CHR 0xC7,
          CHR 0xC8, CHR 0xC9, CHR 0xCA, CHR 0xCB, CHR 0xCC, CHR 0xCD, CHR 0xCE, CHR 0xCF,
          CHR 0xD0, CHR 0xD1, CHR 0xD2, CHR 0xD3, CHR 0xD4, CHR 0xD5, CHR 0xD6,
          CHR 0xD8, CHR 0xD9, CHR 0xDA, CHR 0xDB, CHR 0xDC, CHR 0xDD, CHR 0xDE]
         [CHR 0xE0, CHR 0xE1, CHR 0xE2, CHR 0xE3, CHR 0xE4, CHR 0xE5, CHR 0xE6, CHR 0xE7,
          CHR 0xE8, CHR 0xE9, CHR 0xEA, CHR 0xEB, CHR 0xEC, CHR 0xED, CHR 0xEE, CHR 0xEF,
          CHR 0xF0, CHR 0xF1, CHR 0xF2, CHR 0xF3, CHR 0xF4, CHR 0xF5, CHR 0xF6,
          CHR 0xF8, CHR 0xF9, CHR 0xFA, CHR 0xFB, CHR 0xFC, CHR 0xFD, CHR 0xFE]"

definition lower_char :: "char \<Rightarrow> char" where
  "lower_char c =
     (if is_upper c then translate ascii_to_lower c
      else if 192 \<le> code c \<and> code c \<le> 222 then translate latin1_to_lower c
      else c)"

definition toLowerCase :: "string \<Rightarrow> string" where
  "toLowerCase s = map lower_char s"

definition trim :: "string \<Rightarrow> string" where
  "trim s = rev (dropWhile is_space (rev (dropWhile is_space s)))"

fun startsWith :: "string \<Rightarrow> string \<Rightarrow> bool" where
  "startsWith s [] = True"
| "startsWith [] (k # ks) = False"
| "startsWith (c # cs) (k # ks) = (if c = k then startsWith cs ks else False)"

definition endsWith :: "string \<Rightarrow> string \<Rightarrow> bool" where
  "endsWith s k = startsWith (rev s) (rev k)"

text \<open>\<open>s.includes(k)\<close>.\<close>

fun includes_str :: "string \<Rightarrow> string \<Rightarrow> bool" where
  "includes_str [] k = (k = [])"
| "includes_str (c # cs) k = (if startsWith (c # cs) k then True else includes_str cs k)"

fun join :: "string \<Rightarrow> string list \<Rightarrow> string" where
  "join sep [] = []"
| "join sep [x] = x"
| "join sep (x # y # ys) = x @ sep @ join sep (y # ys)"

text \<open>\<open>s.split(c)\<close> for a one-character separator: always at least one part.\<close>

fun split_on :: "char \<Rightarrow> string \<Rightarrow> string list" where
  "split_on sep [] = [[]]"
| "split_on sep (c # cs) =
     (case split_on sep cs of
        [] \<Rightarrow> [[c]]
      | p # ps \<Rightarrow> if c = sep then [] # p # ps else (c # p) # ps)"

text \<open>\<open>s.replace(/\s+/g, " ")\<close>: every maximal run of white space becomes one space.\<close>

fun collapse_from :: "bool \<Rightarrow> string \<Rightarrow> string" where
  "collapse_from in_run [] = []"
| "collapse_from in_run (c # cs) =
     (if is_space c then (if in_run then collapse_from True cs
                          else CHR '' '' # collapse_from True cs)
      else c # collapse_from False cs)"

definition collapse_ws :: "string \<Rightarrow> string" where
  "collapse_ws s = collapse_from False s"

text \<open>\<open>s.padStart(2, "0")\<close>.\<close>

definition padStart2 :: "string \<Rightarrow> string" where
  "padStart2 s = replicate (2 - length s) CHR ''0'' @ s"

text \<open>Array reads \<open>r[i] || ""\<close> at an index that may be \<open>-1\<close> or past the end, and array
  writes \<open>r[i] = v\<close>: a write past the end extends the array (the holes read as empty),
  a write at a negative index adds a property and leaves the elements alone.\<close>

definition js_at :: "string list \<Rightarrow> int \<Rightarrow> string" where
  "js_at r i = (if 0 \<le> i \<and> nat i < length r then r ! nat i else [])"

definition js_set :: "string list \<Rightarrow> int \<Rightarrow> string \<Rightarrow> string list" where
  "js_set r i v =
     (if i < 0 then r
      else if nat i < length r then r[nat i := v]
      else r @ replicate (nat i - length r) [] @ [v])"

text \<open>Decimal digits, and the decimal rendering of a natural number as a template
  literal prints an index.\<close>

definition digit_char :: "nat \<Rightarrow> char" where
  "digit_char n = ''0123456789'' ! n"

fun digit_of :: "string \<Rightarrow> nat \<Rightarrow> char \<Rightarrow> nat" where
  "digit_of [] n c = 0"
| "digit_of (d # ds) n c = (if c = d then n else digit_of ds (Suc n) c)"

definition digit_val :: "char \<Rightarrow> nat" where
  "digit_val c = digit_of ''0123456789'' 0 c"

fun show_nat :: "nat \<Rightarrow> string" where
  "show_nat n = (if n < 10 then [digit_char n] else show_nat (n div 10) @ [digit_char (n mod 10)])"

declare show_nat.simps [simp del]

section \<open>Regular expressions\<close>

text \<open>
  The regular expressions of the source that are only tested (\<open>re.test(s)\<close>) are written
  in a small datatype and run by a matcher that carries every position the expression
  can have reached. A position is the previous character (for \<open>\b\<close>) and the rest of
  the input. \<open>Rep m n r\<close> is \<open>r{m,n}\<close> and \<open>AtLeast m r\<close> is \<open>r{m,}\<close>; the repetitions of
  the latter are bounded by the length of the remaining input, which is enough as every
  repeated expression of the source consumes a character.
\<close>

datatype rx =
    Eps
  | Cls "char \<Rightarrow> bool"
  | Cat rx rx
  | Alt rx rx
  | Rep nat nat rx
  | AtLeast nat rx
  | WordB

type_synonym pos = "char option \<times> string"

definition word_before :: "pos \<Rightarrow> bool" where
  "word_before p = (case fst p of None \<Rightarrow> False | Some c \<Rightarrow> is_word c)"

definition word_after :: "pos \<Rightarrow> bool" where
  "word_after p = (case snd p of [] \<Rightarrow> False | c # _ \<Rightarrow> is_word c)"

fun step_cls :: "(char \<Rightarrow> bool) \<Rightarrow> pos list \<Rightarrow> pos list" where
  "step_cls P [] = []"
| "step_cls P (p # ps) =
     (case snd p of
        [] \<Rightarrow> step_cls P ps
      | c # cs \<Rightarrow> if P c then (Some c, cs) # step_cls P ps else step_cls P ps)"

fun step_boundary :: "pos list \<Rightarrow> pos list" where
  "step_boundary [] = []"
| "step_boundary (p # ps) =
     (if word_before p \<noteq> word_after p then p # step_boundary ps else step_boundary ps)"

fun longest_rest :: "pos list \<Rightarrow> nat" where
  "longest_rest [] = 0"
| "longest_rest (p # ps) = max (length (snd p)) (longest_rest ps)"

fun rx_weight :: "rx \<Rightarrow> nat" where
  "rx_weight Eps = 1"
| "rx_weight (Cls P) = 1"
| "rx_weight (Cat a b) = Suc (rx_weight a + rx_weight b)"
| "rx_weight (Alt a b) = Suc (rx_weight a + rx_weight b)"
| "rx_weight (Rep m n a) = Suc (rx_weight a + m + n)"
| "rx_weight (AtLeast m a) = Suc (rx_weight a + m)"
| "rx_weight WordB = 1"

function run :: "rx \<Rightarrow> pos list \<Rightarrow> pos list"
  and many :: "nat \<Rightarrow> rx \<Rightarrow> pos list \<Rightarrow> pos list" where
  "run Eps ps = ps"
| "run (Cls P) ps = step_cls P ps"
| "run (Cat a b) ps = run b (run a ps)"
| "run (Alt a b) ps = run a ps @ run b ps"
| "run (Rep m n a) ps =
     (if 0 < m then run (Rep (m - 1) (n - 1) a) (run a ps)
      else if 0 < n then ps @ run (Rep 0 (n - 1) a) (run a ps)
      else ps)"
| "run (AtLeast m a) ps =
     (if 0 < m then run (AtLeast (m - 1) a) (run a ps)
      else many (longest_rest ps) a ps)"
| "run WordB ps = step_boundary ps"
| "many k a ps = (if k = 0 then ps else ps @ many (k - 1) a (run a ps))"
  by pat_completeness auto
termination
  by (relation "measures [\<lambda>x. case x of Inl (r, ps) \<Rightarrow> rx_weight r | Inr (k, a, ps) \<Rightarrow> rx_weight a,
                          \<lambda>x. case x of Inl (r, ps) \<Rightarrow> 0 | Inr (k, a, ps) \<Rightarrow> Suc k]")
     auto

declare run.simps [simp del] many.simps [simp del]

text \<open>\<open>re.test(s)\<close> for an expression without anchors: a match may start anywhere.\<close>

fun search :: "rx \<Rightarrow> char option \<Rightarrow> string \<Rightarrow> bool" where
  "search r prev [] = (run r [(prev, [])] \<noteq> [])"
| "search r prev (c # cs) =
     (if run r [(prev, c # cs)] \<noteq> [] then True else search r (Some c) cs)"

definition rx_test :: "rx \<Rightarrow> string \<Rightarrow> bool" where
  "rx_test r s = search r None s"

fun cats :: "rx list \<Rightarrow> rx" where
  "cats [] = Eps"
| "cats [r] = r"
| "cats (r # rs) = Cat r (cats rs)"

fun alts :: "rx list \<Rightarrow> rx" where
  "alts [] = Cls (\<lambda>_. False)"
| "alts [r] = r"
| "alts (r # rs) = Alt r (alts rs)"

definition char_in :: "string \<Rightarrow> char \<Rightarrow> bool" where
  "char_in s c = (c \<in> set s)"

definition one_of :: "string \<Rightarrow> rx" where
  "one_of s = Cls (char_in s)"

text \<open>A literal under the \<open>i\<close> flag: a code unit below 256 matches an ASCII pattern
  character when both have the same ASCII upper case.\<close>

definition ascii_to_upper :: "(char \<times> char) list" where
  "ascii_to_upper = zip ''abcdefghijklmnopqrstuvwxyz'' ''ABCDEFGHIJKLMNOPQRSTUVWXYZ''"

definition upper_ascii :: "char \<Rightarrow> char" where
  "upper_ascii c = (if is_lower c then translate ascii_to_upper c else c)"

definition same_letter :: "char \<Rightarrow> char \<Rightarrow> bool" where
  "same_letter k c = (upper_ascii c = upper_ascii k)"

definition lit_i :: "string \<Rightarrow> rx" where
  "lit_i s = cats (map (\<lambda>k. Cls (same_letter k)) s)"

section \<open>Field normalizers\<close>

subsection \<open>Amounts\<close>

text \<open>\<open>s.replace(/(etb|birr|usd|\$)/gi, "")\<close>: scanning from the left, an occurrence of one
  of the tokens (in any letter case) is dropped and the scan goes on behind it.\<close>

fun startsWith_i :: "string \<Rightarrow> string \<Rightarrow> bool" where
  "startsWith_i s [] = True"
| "startsWith_i [] (k # ks) = False"
| "startsWith_i (c # cs) (k # ks) =
     (if same_letter k c then startsWith_i cs ks else False)"

fun strip_currency :: "string \<Rightarrow> string" where
  "strip_currency [] = []"
| "strip_currency (c # cs) =
     (if startsWith_i (c # cs) ''etb'' then strip_currency (drop 2 cs)
      else if startsWith_i (c # cs) ''birr'' then strip_currency (drop 3 cs)
      else if startsWith_i (c # cs) ''usd'' then strip_currency (drop 2 cs)
      else if c = CHR ''$'' then strip_currency cs
      else c # strip_currency cs)"

definition digits_val :: "string \<Rightarrow> nat" where
  "digits_val ds = foldl (\<lambda>a c. 10 * a + digit_val c) 0 ds"

text \<open>
  \<open>parseFloat\<close> on the strings it receives here, which contain only digits, \<open>.\<close> and
  \<open>-\<close>: an optional sign, the digits before the point, an optional point with the
  digits behind it; the longest such prefix is read and the rest ignored. With no digit
  before the point and none behind it the result is \<open>NaN\<close> (\<open>None\<close>).
\<close>

definition parse_unsigned :: "string \<Rightarrow> real option" where
  "parse_unsigned r =
     (let ip = takeWhile is_digit r;
          fp = (case dropWhile is_digit r of
                  [] \<Rightarrow> []
                | c # cs \<Rightarrow> if c = CHR ''.'' then takeWhile is_digit cs else [])
      in if ip = [] \<and> fp = [] then None
         else Some (of_nat (digits_val ip) + of_nat (digits_val fp) / 10 ^ length fp))"

definition parseFloat :: "string \<Rightarrow> real option" where
  "parseFloat s =
     (case s of
        [] \<Rightarrow> None
      | c # cs \<Rightarrow> if c = CHR ''-'' then map_option uminus (parse_unsigned cs)
                  else parse_unsigned s)"

text \<open>\<open>Math.round(num * 100) / 100\<close>; \<open>Math.round\<close> rounds a half towards plus infinity.\<close>

definition round2 :: "real \<Rightarrow> real" where
  "round2 x = of_int \<lfloor>x * 100 + 1 / 2\<rfloor> / 100"

definition amount_chars :: "string \<Rightarrow> string" where
  "amount_chars s = filter (\<lambda>c. is_digit c \<or> c \<in> set ''.,-'') s"

definition remove_commas :: "string \<Rightarrow> string" where
  "remove_commas s = filter (\<lambda>c. c \<noteq> CHR '','') s"

definition parseAmount :: "string \<Rightarrow> real" where
  "parseAmount s =
     (if s = [] then 0
      else let tmp = trim (amount_chars (strip_currency s))
           in if tmp = [] then 0
              else let tmp2 =
                     (if CHR '','' \<in> set tmp \<and> CHR ''.'' \<in> set tmp
                        then remove_commas tmp
                      else if CHR '','' \<in> set tmp
                        then (let parts = split_on CHR '','' tmp
                              in if length parts > 1 \<and> length (last parts) = 2
                                 then join ''.'' parts
                                 else remove_commas tmp)
                      else tmp)
                   in case parseFloat tmp2 of None \<Rightarrow> 0 | Some num \<Rightarrow> round2 num)"


subsection \<open>Dates\<close>

text \<open>
  The three anchored expressions of \<open>parseDateFlexible\<close> are matched by hand, as each
  returns its groups. In all three a group is a run of one character class and the
  neighbouring classes are disjoint, so the group is the maximal run at its place.

  \<open>/^(\d{4})[-\/](\d{1,2})[-\/](\d{1,2})$/\<close>
\<close>

definition is_date_sep :: "char \<Rightarrow> bool" where
  "is_date_sep c = (c \<in> set ''-/'')"

definition match_ymd :: "string \<Rightarrow> (string \<times> string \<times> string) option" where
  "match_ymd raw =
     (let y = takeWhile is_digit raw
      in if length y \<noteq> 4 then None
         else case dropWhile is_digit raw of
                [] \<Rightarrow> None
              | s1 # r2 \<Rightarrow>
                  if \<not> is_date_sep s1 then None
                  else let m = takeWhile is_digit r2
                       in if m = [] \<or> 2 < length m then None
                          else case dropWhile is_digit r2 of
                                 [] \<Rightarrow> None
                               | s2 # d \<Rightarrow>
                                   if \<not> is_date_sep s2 then None
                                   else if d \<noteq> [] \<and> length d \<le> 2 \<and> list_all is_digit d
                                        then Some (y, m, d) else None)"

text \<open>\<open>/^(\d{1,2})[-\/](\d{1,2})[-\/](\d{4})$/\<close>\<close>

definition match_dmy :: "string \<Rightarrow> (string \<times> string \<times> string) option" where
  "match_dmy raw =
     (let d = takeWhile is_digit raw
      in if d = [] \<or> 2 < length d then None
         else case dropWhile is_digit raw of
                [] \<Rightarrow> None
              | s1 # r2 \<Rightarrow>
                  if \<not> is_date_sep s1 then None
                  else let m = takeWhile is_digit r2
                       in if m = [] \<or> 2 < length m then None
                          else case dropWhile is_digit r2 of
                                 [] \<Rightarrow> None
                               | s2 # y \<Rightarrow>
                                   if \<not> is_date_sep s2 then None
                                   else if length y = 4 \<and> list_all is_digit y
                                        then Some (d, m, y) else None)"

text \<open>\<open>/^(\d{1,2})\s+([A-Za-z]{3,})\s+(\d{2,4})$/\<close>\<close>

definition match_long :: "string \<Rightarrow> (string \<times> string \<times> string) option" where
  "match_long raw =
     (let d = takeWhile is_digit raw; r1 = dropWhile is_digit raw
      in if d = [] \<or> 2 < length d then None
         else if takeWhile is_space r1 = [] then None
         else let r2 = dropWhile is_space r1;
                  monthName = takeWhile is_alpha r2;
                  r3 = dropWhile is_alpha r2
              in if length monthName < 3 then None
                 else if takeWhile is_space r3 = [] then None
                 else let yRaw = dropWhile is_space r3
                      in if 2 \<le> length yRaw \<and> length yRaw \<le> 4 \<and> list_all is_digit yRaw
                         then Some (d, monthName, yRaw) else None)"

text \<open>The month table, in the order of its keys; the first key that is a prefix of the
  lower-cased name decides, and an unknown name is month \<open>01\<close>.\<close>

definition month_map :: "(string \<times> string) list" where
  "month_map =
     [(''jan'', ''01''), (''january'', ''01''),
      (''feb'', ''02''), (''february'', ''02''),
      (''mar'', ''03''), (''march'', ''03''),
      (''apr'', ''04''), (''april'', ''04''),
      (''may'', ''05''),
      (''jun'', ''06''), (''june'', ''06''),
      (''jul'', ''07''), (''july'', ''07''),
      (''aug'', ''08''), (''august'', ''08''),
      (''sep'', ''09''), (''sept'', ''09''), (''september'', ''09''),
      (''oct'', ''10''), (''october'', ''10''),
      (''nov'', ''11''), (''november'', ''11''),
      (''dec'', ''12''), (''december'', ''12'')]"

fun first_prefix :: "(string \<times> string) list \<Rightarrow> string \<Rightarrow> string" where
  "first_prefix [] low = ''01''"
| "first_prefix (kv # kvs) low =
     (if startsWith low (fst kv) then snd kv else first_prefix kvs low)"

definition monthNameToNumber :: "string \<Rightarrow> string" where
  "monthNameToNumber name = first_prefix month_map (toLowerCase name)"

definition parseDateFlexible :: "string \<Rightarrow> string" where
  "parseDateFlexible s =
     (if s = [] then []
      else let raw = collapse_ws (trim s)
           in case match_ymd raw of
                Some (y, m, d) \<Rightarrow> y @ ''-'' @ padStart2 m @ ''-'' @ padStart2 d
              | None \<Rightarrow>
                 (case match_dmy raw of
                    Some (d, m, y) \<Rightarrow> y @ ''-'' @ padStart2 m @ ''-'' @ padStart2 d
                  | None \<Rightarrow>
                     (case match_long raw of
                        Some (d, monthName, yRaw) \<Rightarrow>
                          (if length yRaw = 2 then ''20'' @ yRaw else yRaw)
                            @ ''-'' @ monthNameToNumber monthName @ ''-'' @ padStart2 d
                      | None \<Rightarrow> raw)))"

subsection \<open>References\<close>

text \<open>\<open>ref.replace(/\s+/g, "").replace(/[-\\/]{2,}/g, "-")\<close>: white space is removed, then
  every maximal run of two or more of \<open>-\<close>, \<open>\\<close>, \<open>/\<close> becomes one \<open>-\<close>.\<close>

definition is_ref_sep :: "char \<Rightarrow> bool" where
  "is_ref_sep c = (c \<in> set [CHR ''-'', CHR 0x5C, CHR ''/''])"

function collapse_seps :: "string \<Rightarrow> string" where
  "collapse_seps [] = []"
| "collapse_seps (c # cs) =
     (if is_ref_sep c \<and> takeWhile is_ref_sep cs \<noteq> []
      then CHR ''-'' # collapse_seps (dropWhile is_ref_sep cs)
      else c # collapse_seps cs)"
  by pat_completeness auto
termination
  by (relation "measure length") (auto simp: length_dropWhile_le less_Suc_eq_le)

definition fixReference :: "string \<Rightarrow> string" where
  "fixReference ref =
     (if ref = [] then [] else collapse_seps (filter (\<lambda>c. \<not> is_space c) ref))"

section \<open>Header resolver\<close>

fun findIndex :: "(string \<Rightarrow> bool) \<Rightarrow> string list \<Rightarrow> int \<Rightarrow> int" where
  "findIndex P [] i = - 1"
| "findIndex P (h # hs) i = (if P h then i else findIndex P hs (i + 1))"

fun findColumnIndex :: "string list \<Rightarrow> string list \<Rightarrow> int" where
  "findColumnIndex hs [] = - 1"
| "findColumnIndex hs (name # names) =
     (let idx = findIndex (\<lambda>h. includes_str h (toLowerCase name)) hs 0
      in if idx \<noteq> - 1 then idx else findColumnIndex hs names)"

section \<open>Transaction assembler\<close>

record ParsedTransaction =
  bookDate :: string
  valueDate :: "string option"
  reference :: string
  description :: string
  debit :: real
  credit :: real
  closingBalance :: "real option"

record ParsedTable =
  headers :: "string list"
  rows :: "string list list"
  transactions :: "ParsedTransaction list"

text \<open>\<open>/debit/i.test(joined)\<close> and \<open>/credit/i.test(joined)\<close>.\<close>

definition debit_word :: rx where
  "debit_word = lit_i ''debit''"

definition credit_word :: rx where
  "credit_word = lit_i ''credit''"

record ColumnRoles =
  bookDateIndex :: int
  valueDateIndex :: int
  referenceIndex :: int
  descriptionIndex :: int
  debitIndex :: int
  creditIndex :: int
  balanceIndex :: int

definition resolve_roles :: "string list \<Rightarrow> ColumnRoles" where
  "resolve_roles normalizedHeaders =
     \<lparr> bookDateIndex = findColumnIndex normalizedHeaders [''book date'', ''date''],
       valueDateIndex = findColumnIndex normalizedHeaders [''value date''],
       referenceIndex = findColumnIndex normalizedHeaders [''reference'', ''ref''],
       descriptionIndex =
         findColumnIndex normalizedHeaders [''description'', ''details'', ''narration''],
       debitIndex = findColumnIndex normalizedHeaders [''debit'', ''dr'', ''withdrawal''],
       creditIndex = findColumnIndex normalizedHeaders [''credit'', ''cr'', ''deposit''],
       balanceIndex = findColumnIndex normalizedHeaders [''balance''] \<rparr>"

text \<open>The closure \<open>get\<close> of \<open>parseTableData\<close>.\<close>

definition get_cell :: "string list \<Rightarrow> int \<Rightarrow> string" where
  "get_cell row idx = (if 0 \<le> idx \<and> nat idx < length row then trim (row ! nat idx) else [])"

definition assemble :: "ColumnRoles \<Rightarrow> string list \<Rightarrow> ParsedTransaction" where
  "assemble roles row =
     (let valueDateRaw = (if valueDateIndex roles \<noteq> - 1 then get_cell row (valueDateIndex roles)
                          else []);
          debit0 = parseAmount (get_cell row (debitIndex roles));
          credit0 = parseAmount (get_cell row (creditIndex roles));
          rescan = (debit0 = 0 \<and> credit0 = 0);
          joined = join '' '' row
      in \<lparr> bookDate = parseDateFlexible (get_cell row (bookDateIndex roles)),
           valueDate = (if valueDateRaw \<noteq> [] then Some (parseDateFlexible valueDateRaw) else None),
           reference = fixReference (get_cell row (referenceIndex roles)),
           description = get_cell row (descriptionIndex roles),
           debit = (if rescan \<and> rx_test debit_word joined then parseAmount joined else debit0),
           credit = (if rescan \<and> rx_test credit_word joined then parseAmount joined else credit0),
           closingBalance = (if balanceIndex roles \<noteq> - 1
                             then Some (parseAmount (get_cell row (balanceIndex roles)))
                             else None) \<rparr>)"

definition parseTableData :: "string list \<Rightarrow> string list list \<Rightarrow> ParsedTable" where
  "parseTableData hdrs rws =
     (let roles = resolve_roles (map (\<lambda>h. trim (toLowerCase h)) hdrs)
      in \<lparr> headers = hdrs, rows = rws, transactions = map (assemble roles) rws \<rparr>)"


section \<open>Continuation merger\<close>

text \<open>
  \<open>/\b(\d{1,2}[-/]\d{1,2}[-/]\d{2,4}|\d{1,2}\s+[A-Z]{3}\s+\d{2,4}|\d{4}[-/]\d{1,2}[-/]\d{1,2})\b/\<close>
\<close>

definition dateRegex :: rx where
  "dateRegex =
     cats [WordB,
           alts [cats [Rep 1 2 (Cls is_digit), Cls is_date_sep, Rep 1 2 (Cls is_digit),
                       Cls is_date_sep, Rep 2 4 (Cls is_digit)],
                 cats [Rep 1 2 (Cls is_digit), AtLeast 1 (Cls is_space), Rep 3 3 (Cls is_upper),
                       AtLeast 1 (Cls is_space), Rep 2 4 (Cls is_digit)],
                 cats [Rep 4 4 (Cls is_digit), Cls is_date_sep, Rep 1 2 (Cls is_digit),
                       Cls is_date_sep, Rep 1 2 (Cls is_digit)]],
           WordB]"

text \<open>\<open>/\b\d{1,3}(,\d{3})*(\.\d{2})?\b/\<close>\<close>

definition amountRegex :: rx where
  "amountRegex =
     cats [WordB, Rep 1 3 (Cls is_digit),
           AtLeast 0 (Cat (one_of '','') (Rep 3 3 (Cls is_digit))),
           Rep 0 1 (Cat (one_of ''.'') (Rep 2 2 (Cls is_digit))),
           WordB]"

text \<open>\<open>/(opening balance|closing balance|period start|period end|page \d+)/i\<close>\<close>

definition boilerplateRegex :: rx where
  "boilerplateRegex =
     alts [lit_i ''opening balance'', lit_i ''closing balance'', lit_i ''period start'',
           lit_i ''period end'', Cat (lit_i ''page '') (AtLeast 1 (Cls is_digit))]"

definition hasDate :: "string list \<Rightarrow> bool" where
  "hasDate row = rx_test dateRegex (js_at row 0)"

definition nonblank :: "string \<Rightarrow> bool" where
  "nonblank c = (trim c \<noteq> [])"

text \<open>The description column of the merger: the resolved index, or 2.\<close>

definition descIndex :: "ColumnRoles \<Rightarrow> int" where
  "descIndex roles = (if descriptionIndex roles \<ge> 0 then descriptionIndex roles else 2)"

definition append_description :: "ColumnRoles \<Rightarrow> string list \<Rightarrow> string list \<Rightarrow> string list" where
  "append_description roles block row =
     (let descParts = filter nonblank row
      in if descParts \<noteq> []
         then js_set block (descIndex roles)
                (trim (js_at block (descIndex roles) @ '' '' @ join '' '' descParts))
         else block)"

definition patch_amount :: "int \<Rightarrow> string list \<Rightarrow> string list \<Rightarrow> string list" where
  "patch_amount idx nextRow block =
     (if js_at block idx = [] \<and> rx_test amountRegex (js_at nextRow idx)
      then js_set block idx (js_at nextRow idx) else block)"

text \<open>One continuation row absorbed into the block (the body of the inner loop).\<close>

definition absorb_row :: "ColumnRoles \<Rightarrow> string list \<Rightarrow> string list \<Rightarrow> string list" where
  "absorb_row roles block nextRow =
     patch_amount (balanceIndex roles) nextRow
       (patch_amount (creditIndex roles) nextRow
         (patch_amount (debitIndex roles) nextRow
           (append_description roles block nextRow)))"

text \<open>The inner loop: the block and the rows left when it stops.\<close>

fun absorb :: "ColumnRoles \<Rightarrow> string list \<Rightarrow> string list list
    \<Rightarrow> string list \<times> string list list" where
  "absorb roles block [] = (block, [])"
| "absorb roles block (nextRow # rest) =
     (if hasDate nextRow then (block, nextRow # rest)
      else absorb roles (absorb_row roles block nextRow) rest)"

text \<open>The outer loop, with \<open>groupedRows\<close> as accumulator.\<close>

function groupRows :: "ColumnRoles \<Rightarrow> string list list \<Rightarrow> string list list
    \<Rightarrow> string list list" where
  "groupRows roles grouped [] = grouped"
| "groupRows roles grouped (row # rest) =
     (if hasDate row
      then groupRows roles (grouped @ [fst (absorb roles row rest)]) (snd (absorb roles row rest))
      else if grouped \<noteq> []
      then groupRows roles (butlast grouped @ [append_description roles (last grouped) row]) rest
      else groupRows roles grouped rest)"
  by pat_completeness auto
termination
proof (relation "measure (\<lambda>(roles, grouped, rs). length rs)")
  have shorter: "length (snd (absorb roles block rs)) \<le> length rs" for roles block rs
    by (induction rs arbitrary: block) (auto intro: le_SucI)
  fix roles :: ColumnRoles and grouped :: "string list list" and row rest
  show "((roles, grouped @ [fst (absorb roles row rest)], snd (absorb roles row rest)),
         (roles, grouped, row # rest)) \<in> measure (\<lambda>(roles, grouped, rs). length rs)"
    using shorter [of roles row rest] by simp
qed auto

definition finalRows :: "string list list \<Rightarrow> string list list" where
  "finalRows grouped =
     filter (\<lambda>r. if rx_test boilerplateRegex (toLowerCase (join '' '' r)) then False
                 else list_ex nonblank r) grouped"

section \<open>Format extractors\<close>

datatype error =
    PdfUnavailable
  | DocumentXmlMissing
  | NoTablesFound
  | NoTransactionsFound
  | EmptySheet
  | UnsupportedFormat

subsection \<open>Table documents\<close>

text \<open>
  A table document is given by what the XML walk finds: the tables (\<open>w:tbl\<close>), each a list
  of rows (\<open>w:tr\<close>), each a list of cells (\<open>w:tc\<close>), each a list of text runs (\<open>w:t\<close>).
  Nested tables are outside the model.
\<close>

type_synonym cell = "string list"
type_synonym table = "cell list list"

datatype docx = NoDocumentXml | Document "table list"

definition getCellText :: "cell \<Rightarrow> string" where
  "getCellText tc = join '' '' (filter (\<lambda>t. t \<noteq> []) (map (\<lambda>t. trim (collapse_ws t)) tc))"

definition headerKeywords :: "string list" where
  "headerKeywords =
     [''book date'', ''reference'', ''description'', ''value date'', ''debit'', ''credit'',
      ''balance'']"

definition row_score :: "string list \<Rightarrow> nat" where
  "row_score row =
     length (filter (\<lambda>kw. includes_str (toLowerCase (join '' '' row)) kw) headerKeywords)"

text \<open>The header search of one table: the best score and its row index, over the rows
  handed in (the first ten).\<close>

fun find_header :: "string list list \<Rightarrow> int \<Rightarrow> nat \<Rightarrow> int \<Rightarrow> nat \<times> int" where
  "find_header [] i tableBestScore headerIndex = (tableBestScore, headerIndex)"
| "find_header (r # rs) i tableBestScore headerIndex =
     (if row_score r > tableBestScore then find_header rs (i + 1) (row_score r) i
      else find_header rs (i + 1) tableBestScore headerIndex)"

record scan_state =
  chosenHeaders :: "string list"
  mergedRows :: "string list list"
  globalBestScore :: nat

definition scan_table :: "scan_state \<Rightarrow> table \<Rightarrow> scan_state" where
  "scan_table st tbl =
     (let rws = map (map getCellText) tbl
      in if rws = [] then st
         else let found = find_header (take 10 rws) 0 0 (- 1)
              in if snd found = - 1 then st
                 else let headerRow = map trim (rws ! nat (snd found));
                          better = (chosenHeaders st = [] \<or> fst found > globalBestScore st);
                          dataRows = drop (nat (snd found + 1)) rws
                      in \<lparr> chosenHeaders = (if better then headerRow else chosenHeaders st),
                           mergedRows = mergedRows st @ filter (list_ex nonblank) dataRows,
                           globalBestScore = (if better then fst found else globalBestScore st) \<rparr>)"

definition max_length :: "string list list \<Rightarrow> nat" where
  "max_length rws = foldr max (map length rws) 0"

definition parseWord :: "docx \<Rightarrow> error + ParsedTable" where
  "parseWord doc =
     (case doc of
        NoDocumentXml \<Rightarrow> Inl DocumentXmlMissing
      | Document tblEls \<Rightarrow>
          if tblEls = [] then Inl NoTablesFound
          else let st = foldl scan_table
                          \<lparr> chosenHeaders = [], mergedRows = [], globalBestScore = 0 \<rparr> tblEls
               in if mergedRows st = [] then Inl NoTransactionsFound
                  else let hs0 = (if chosenHeaders st = []
                                  then map (\<lambda>i. ''Column '' @ show_nat (i + 1))
                                         [0 ..< max_length (mergedRows st)]
                                  else chosenHeaders st);
                           hs = map (\<lambda>h. trim (collapse_ws h)) hs0;
                           roles = resolve_roles (map (\<lambda>h. trim (toLowerCase h)) hs);
                           headerLen = max (length hs) (max_length (mergedRows st));
                           paddedRows = map (\<lambda>r. map (\<lambda>i. trim (js_at r (int i))) [0 ..< headerLen])
                                          (mergedRows st)
                       in Inr (parseTableData hs (finalRows (groupRows roles [] paddedRows))))"

subsection \<open>Spreadsheets\<close>

text \<open>
  The first sheet is given as the rows \<open>sheet_to_json\<close> returns, its cells as strings.
  Numeric cells, which the source turns into strings with \<open>(c || "").toString()\<close> (so that
  the number \<open>0\<close> becomes the empty string), are outside the model.
\<close>

definition parseExcel :: "string list list \<Rightarrow> error + ParsedTable" where
  "parseExcel jsonData =
     (case jsonData of
        [] \<Rightarrow> Inl EmptySheet
      | h # rs \<Rightarrow> Inr (parseTableData (map trim h) (map (map trim) rs)))"

subsection \<open>Plain text\<close>

text \<open>\<open>line.split(/\s{2,}|\t/)\<close>: a separator is a run of two or more white-space
  characters, or a single tab.\<close>

fun split_cols :: "string \<Rightarrow> string \<Rightarrow> string list"
  and split_cols_skip :: "string \<Rightarrow> string list" where
  "split_cols cur [] = [rev cur]"
| "split_cols cur (c # cs) =
     (if is_space c \<and> (takeWhile is_space cs \<noteq> [] \<or> c = CHR 0x09)
      then rev cur # split_cols_skip cs
      else split_cols (c # cur) cs)"
| "split_cols_skip [] = [[]]"
| "split_cols_skip (c # cs) =
     (if is_space c then split_cols_skip cs else split_cols [c] cs)"


definition lines_of :: "string \<Rightarrow> string list" where
  "lines_of text = filter (\<lambda>l. l \<noteq> []) (map trim (split_on CHR 0x0A text))"

definition extractTableFromText :: "string \<Rightarrow> string list \<times> string list list" where
  "extractTableFromText text =
     (case lines_of text of
        [] \<Rightarrow> ([], [])
      | l # ls \<Rightarrow> (map trim (split_cols [] l), map (\<lambda>x. map trim (split_cols [] x)) ls))"

text \<open>The PDF reader of the source: it throws for every buffer.\<close>

definition pdfParse :: "nat list \<Rightarrow> error + string" where
  "pdfParse buffer = Inl PdfUnavailable"

section \<open>Format dispatcher\<close>

text \<open>
  A file has a declared type, a name and its bytes. The archive reader and the XML
  parser (for table documents) and the workbook reader (for spreadsheets) are libraries
  outside the source; a file carries what they read from its bytes.
\<close>

record input_file =
  file_type :: string
  file_name :: string
  file_bytes :: "nat list"
  as_docx :: docx
  as_sheet :: "string list list"

definition parsePDF :: "input_file \<Rightarrow> error + ParsedTable" where
  "parsePDF f =
     (case pdfParse (file_bytes f) of
        Inl e \<Rightarrow> Inl e
      | Inr text \<Rightarrow>
          Inr (parseTableData (fst (extractTableFromText text)) (snd (extractTableFromText text))))"

definition parseFile :: "input_file \<Rightarrow> error + ParsedTable" where
  "parseFile f =
     (let fileType = file_type f; fileName = toLowerCase (file_name f)
      in if fileType = ''application/pdf'' \<or> endsWith fileName ''.pdf'' then parsePDF f
         else if fileType =
                   ''application/vnd.openxmlformats-officedocument.wordprocessingml.document''
                 \<or> endsWith fileName ''.docx''
           then parseWord (as_docx f)
         else if fileType = ''application/vnd.ms-excel''
                 \<or> fileType = ''application/vnd.openxmlformats-officedocument.spreadsheetml.sheet''
                 \<or> endsWith fileName ''.xls'' \<or> endsWith fileName ''.xlsx''
           then parseExcel (as_sheet f)
         else Inl UnsupportedFormat)"

section \<open>Validator\<close>

record ValidationReport =
  valid :: bool
  errors :: "string list"

text \<open>\<open>/^\d{4}-\d{2}-\d{2}/\<close>\<close>

definition iso_prefix :: "string \<Rightarrow> bool" where
  "iso_prefix s =
     (10 \<le> length s \<and> list_all is_digit (take 4 s) \<and> s ! 4 = CHR ''-'' \<and>
      list_all is_digit (take 2 (drop 5 s)) \<and> s ! 7 = CHR ''-'' \<and>
      list_all is_digit (take 2 (drop 8 s)))"

definition tx_label :: "nat \<Rightarrow> string" where
  "tx_label index = ''Transaction '' @ show_nat (index + 1)"

text \<open>The messages of one transaction. How a number is printed inside a message is
  left to the host (\<open>num_str\<close>).\<close>

definition tx_errors :: "(real \<Rightarrow> string) \<Rightarrow> nat \<Rightarrow> ParsedTransaction \<Rightarrow> string list" where
  "tx_errors num_str index t =
     (if trim (bookDate t) = [] then [tx_label index @ '': Missing book date'']
      else if \<not> iso_prefix (bookDate t)
        then [tx_label index @ '': Invalid book date format ('' @ bookDate t @ '')'']
      else [])
     @ (if trim (reference t) = [] then [tx_label index @ '': Missing reference''] else [])
     @ (if trim (description t) = [] then [tx_label index @ '': Missing description''] else [])
     @ (if debit t = 0 \<and> credit t = 0
        then [tx_label index @ '': Both debit and credit are zero''] else [])
     @ (if debit t < 0
        then [tx_label index @ '': Debit amount is negative ('' @ num_str (debit t) @ '')'']
        else [])
     @ (if credit t < 0
        then [tx_label index @ '': Credit amount is negative ('' @ num_str (credit t) @ '')'']
        else [])"

definition validateTransactions :: "(real \<Rightarrow> string) \<Rightarrow> ParsedTransaction list \<Rightarrow> ValidationReport" where
  "validateTransactions num_str ts =
     (if ts = [] then \<lparr> valid = False, errors = [''No transactions found in the file''] \<rparr>
      else let errs = concat (map (\<lambda>(index, t). tx_errors num_str index t) (enumerate 0 ts))
           in \<lparr> valid = (errs = []), errors = errs \<rparr>)"


section \<open>Vocabulary of the properties\<close>

text \<open>The form \<open>YYYY-MM-DD\<close> (ten characters), and the month and day read from it.\<close>

definition iso_shape :: "string \<Rightarrow> bool" where
  "iso_shape r = (length r = 10 \<and> iso_prefix r)"

definition month_of :: "string \<Rightarrow> nat" where
  "month_of r = digits_val (take 2 (drop 5 r))"

definition day_of :: "string \<Rightarrow> nat" where
  "day_of r = digits_val (take 2 (drop 8 r))"

definition valid_iso_date :: "string \<Rightarrow> bool" where
  "valid_iso_date r =
     (iso_shape r \<and> 1 \<le> month_of r \<and> month_of r \<le> 12 \<and> 1 \<le> day_of r \<and> day_of r \<le> 31)"




text \<open>
  The decimal rendering of a number with at most two fractional digits, as the host
  prints it: a minus sign for a negative number, the integer part, and the fractional
  digits without trailing zeros behind a point when there are any. \<open>unsigned_text k\<close>
  is the text for \<open>k\<close> hundredths.
\<close>

definition unsigned_text :: "nat \<Rightarrow> string" where
  "unsigned_text k =
     show_nat (k div 100)
       @ (if k mod 100 = 0 then []
          else if k mod 100 mod 10 = 0 then [CHR ''.'', digit_char (k mod 100 div 10)]
          else [CHR ''.'', digit_char (k mod 100 div 10), digit_char (k mod 100 mod 10)])"

definition numberToString :: "real \<Rightarrow> string" where
  "numberToString x = (if x < 0 then ''-'' else []) @ unsigned_text (nat \<lfloor>\<bar>x\<bar> * 100\<rfloor>)"

section \<open>Evaluation\<close>

text \<open>Facts that let the simplifier run the definitions on concrete inputs.\<close>

lemma run_Nil: "run r [] = []" and many_Nil: "many k a [] = []"
  by (induction r "[] :: pos list" and k a "[] :: pos list" rule: run_many.induct)
     (simp_all add: run.simps many.simps)

lemma ascii_to_lower_eval:
  "ascii_to_lower =
     [(CHR ''A'', CHR ''a''), (CHR ''B'', CHR ''b''), (CHR ''C'', CHR ''c''),
      (CHR ''D'', CHR ''d''), (CHR ''E'', CHR ''e''), (CHR ''F'', CHR ''f''),
      (CHR ''G'', CHR ''g''), (CHR ''H'', CHR ''h''), (CHR ''I'', CHR ''i''),
      (CHR ''J'', CHR ''j''), (CHR ''K'', CHR ''k''), (CHR ''L'', CHR ''l''),
      (CHR ''M'', CHR ''m''), (CHR ''N'', CHR ''n''), (CHR ''O'', CHR ''o''),
      (CHR ''P'', CHR ''p''), (CHR ''Q'', CHR ''q''), (CHR ''R'', CHR ''r''),
      (CHR ''S'', CHR ''s''), (CHR ''T'', CHR ''t''), (CHR ''U'', CHR ''u''),
      (CHR ''V'', CHR ''v''), (CHR ''W'', CHR ''w''), (CHR ''X'', CHR ''x''),
      (CHR ''Y'', CHR ''y''), (CHR ''Z'', CHR ''z'')]"
  by (simp add: ascii_to_lower_def)

lemma ascii_to_upper_eval:
  "ascii_to_upper =
     [(CHR ''a'', CHR ''A''), (CHR ''b'', CHR ''B''), (CHR ''c'', CHR ''C''),
      (CHR ''d'', CHR ''D''), (CHR ''e'', CHR ''E''), (CHR ''f'', CHR ''F''),
      (CHR ''g'', CHR ''G''), (CHR ''h'', CHR ''H''), (CHR ''i'', CHR ''I''),
      (CHR ''j'', CHR ''J''), (CHR ''k'', CHR ''K''), (CHR ''l'', CHR ''L''),
      (CHR ''m'', CHR ''M''), (CHR ''n'', CHR ''N''), (CHR ''o'', CHR ''O''),
      (CHR ''p'', CHR ''P''), (CHR ''q'', CHR ''Q''), (CHR ''r'', CHR ''R''),
      (CHR ''s'', CHR ''S''), (CHR ''t'', CHR ''T''), (CHR ''u'', CHR ''U''),
      (CHR ''v'', CHR ''V''), (CHR ''w'', CHR ''W''), (CHR ''x'', CHR ''X''),
      (CHR ''y'', CHR ''Y''), (CHR ''z'', CHR ''Z'')]"
  by (simp add: ascii_to_upper_def)

lemmas char_eval =
  code_def is_digit_def is_upper_def is_lower_def is_alpha_def is_word_def is_space_def
  lower_char_def upper_ascii_def same_letter_def char_in_def ascii_to_lower_eval
  ascii_to_upper_eval latin1_to_lower_def is_date_sep_def is_ref_sep_def

lemmas string_eval =
  char_eval toLowerCase_def trim_def endsWith_def collapse_ws_def padStart2_def Let_def
  digit_char_def digit_val_def digits_val_def

lemmas rx_eval =
  char_eval run.simps many.simps run_Nil many_Nil rx_test_def one_of_def lit_i_def
  word_before_def word_after_def

lemmas amount_eval =
  string_eval parseFloat_def parse_unsigned_def round2_def parseAmount_def amount_chars_def
  remove_commas_def

lemmas date_eval =
  string_eval match_ymd_def match_dmy_def match_long_def month_map_def
  monthNameToNumber_def parseDateFlexible_def

section \<open>Properties\<close>

subsection \<open>Amounts by example\<close>

text \<open>
  Claim C3, as stated: the amount normalizer maps "1,234.56" to 1234.56, "1.234,56" to
  1234.56, "1,234" to 1234 and "12,34" to 12.34. The second value is not what the code
  returns: a string with both a comma and a point loses its commas, so "1.234,56" is read
  as 1.23456 and rounded to 1.23.
\<close>

theorem parseAmount_european_counterexample:
  "parseAmount ''1.234,56'' = 1.23 \<and> parseAmount ''1.234,56'' \<noteq> 1234.56"
  by (simp add: amount_eval)

text \<open>
  Claim C3, amended: the amount normalizer maps "1,234.56" to 1234.56, "1.234,56" to
  1.23, "1,234" to 1234 and "12,34" to 12.34.
\<close>

theorem parseAmount_examples:
  "parseAmount ''1,234.56'' = 1234.56 \<and> parseAmount ''1.234,56'' = 1.23 \<and>
   parseAmount ''1,234'' = 1234 \<and> parseAmount ''12,34'' = 12.34"
  by (simp add: amount_eval)

subsection \<open>Continuation merging by example\<close>

lemma js_at_cases: "js_at r i = [] \<or> js_at r i \<in> set r"
  by (simp add: js_at_def)

lemma amount_not_in_words:
  "\<not> rx_test amountRegex []" "\<not> rx_test amountRegex ''to vendor''"
  by (simp_all add: amountRegex_def rx_eval)

lemma patch_amount_to_vendor: "patch_amount idx [[], [], ''to vendor''] block = block"
  using js_at_cases [of "[[], [], ''to vendor'']" idx] amount_not_in_words
  by (auto simp: patch_amount_def)

lemma hasDate_examples:
  "hasDate [''01/02/2024'', ''REF1'', ''Payment'']"
  "\<not> hasDate [[], [], ''to vendor'']"
  "hasDate [''02/02/2024'', ''REF2'', ''Salary'']"
  by (simp_all add: hasDate_def dateRegex_def js_at_def rx_eval)

lemma append_description_to_vendor:
  "descriptionIndex roles = - 1 \<Longrightarrow>
   append_description roles [''01/02/2024'', ''REF1'', ''Payment''] [[], [], ''to vendor'']
     = [''01/02/2024'', ''REF1'', ''Payment to vendor'']"
  by (simp add: append_description_def descIndex_def nonblank_def js_at_def js_set_def
        string_eval)

lemma finalRows_example:
  "finalRows [[''01/02/2024'', ''REF1'', ''Payment to vendor''], [''02/02/2024'', ''REF2'', ''Salary'']]
     = [[''01/02/2024'', ''REF1'', ''Payment to vendor''], [''02/02/2024'', ''REF2'', ''Salary'']]"
  by (simp add: finalRows_def boilerplateRegex_def nonblank_def string_eval rx_eval)

text \<open>
  Claim C1. Given the padded physical rows ["01/02/2024","REF1","Payment"],
  ["","","to vendor"], ["02/02/2024","REF2","Salary"] with the description column
  unresolved (so that index 2 is used), whatever the other column roles are, the
  continuation merger produces exactly 2 logical rows: the first physical row with its
  description cell changed to "Payment to vendor", and the third physical row unchanged.
  This holds for the grouping loop and for its result after the boilerplate filter.
\<close>

theorem continuation_merge_example:
  "groupRows (roles\<lparr>descriptionIndex := - 1\<rparr>) []
     [[''01/02/2024'', ''REF1'', ''Payment''], [[], [], ''to vendor''],
      [''02/02/2024'', ''REF2'', ''Salary'']]
     = [[''01/02/2024'', ''REF1'', ''Payment to vendor''], [''02/02/2024'', ''REF2'', ''Salary'']]
   \<and> finalRows (groupRows (roles\<lparr>descriptionIndex := - 1\<rparr>) []
     [[''01/02/2024'', ''REF1'', ''Payment''], [[], [], ''to vendor''],
      [''02/02/2024'', ''REF2'', ''Salary'']])
     = [[''01/02/2024'', ''REF1'', ''Payment to vendor''], [''02/02/2024'', ''REF2'', ''Salary'']]"
  by (simp add: hasDate_examples absorb_row_def patch_amount_to_vendor
        append_description_to_vendor finalRows_example)

subsection \<open>One table, one transaction\<close>

lemma example_cells:
  "map (map getCellText)
     [[[''Book Date''], [''Reference''], [''Description''], [''Debit''], [''Credit''], [''Balance'']],
      [[''01/03/2024''], [''ABC12345''], [''Shop payment''], [''100.00''], [[]], [''900.00'']]]
   = [[''Book Date'', ''Reference'', ''Description'', ''Debit'', ''Credit'', ''Balance''],
      [''01/03/2024'', ''ABC12345'', ''Shop payment'', ''100.00'', [], ''900.00'']]"
  by (simp add: getCellText_def string_eval)

lemma example_scores:
  "row_score [''Book Date'', ''Reference'', ''Description'', ''Debit'', ''Credit'', ''Balance''] = 6"
  "row_score [''01/03/2024'', ''ABC12345'', ''Shop payment'', ''100.00'', [], ''900.00''] = 0"
  by (simp_all add: row_score_def headerKeywords_def string_eval)

lemma example_trims:
  "trim ''Book Date'' = ''Book Date''" "trim ''Reference'' = ''Reference''"
  "trim ''Description'' = ''Description''" "trim ''Debit'' = ''Debit''"
  "trim ''Credit'' = ''Credit''" "trim ''Balance'' = ''Balance''"
  "trim ''book date'' = ''book date''" "trim ''reference'' = ''reference''"
  "trim ''description'' = ''description''" "trim ''debit'' = ''debit''"
  "trim ''credit'' = ''credit''" "trim ''balance'' = ''balance''"
  "trim ''01/03/2024'' = ''01/03/2024''" "trim ''ABC12345'' = ''ABC12345''"
  "trim ''Shop payment'' = ''Shop payment''" "trim ''100.00'' = ''100.00''"
  "trim [] = []" "trim ''900.00'' = ''900.00''"
  by (simp_all add: string_eval)

lemma example_words:
  "collapse_ws ''Book Date'' = ''Book Date''" "collapse_ws ''Reference'' = ''Reference''"
  "collapse_ws ''Description'' = ''Description''" "collapse_ws ''Debit'' = ''Debit''"
  "collapse_ws ''Credit'' = ''Credit''" "collapse_ws ''Balance'' = ''Balance''"
  "toLowerCase ''Book Date'' = ''book date''" "toLowerCase ''Reference'' = ''reference''"
  "toLowerCase ''Description'' = ''description''" "toLowerCase ''Debit'' = ''debit''"
  "toLowerCase ''Credit'' = ''credit''" "toLowerCase ''Balance'' = ''balance''"
  by (simp_all add: string_eval)

lemma example_scan:
  "scan_table \<lparr> chosenHeaders = [], mergedRows = [], globalBestScore = 0 \<rparr>
     [[[''Book Date''], [''Reference''], [''Description''], [''Debit''], [''Credit''], [''Balance'']],
      [[''01/03/2024''], [''ABC12345''], [''Shop payment''], [''100.00''], [[]], [''900.00'']]]
   = \<lparr> chosenHeaders =
         [''Book Date'', ''Reference'', ''Description'', ''Debit'', ''Credit'', ''Balance''],
       mergedRows = [[''01/03/2024'', ''ABC12345'', ''Shop payment'', ''100.00'', [], ''900.00'']],
       globalBestScore = 6 \<rparr>"
  unfolding scan_table_def example_cells
  by (simp add: example_scores example_trims nonblank_def Let_def)

lemma example_roles:
  "resolve_roles [''book date'', ''reference'', ''description'', ''debit'', ''credit'', ''balance'']
   = \<lparr> bookDateIndex = 0, valueDateIndex = - 1, referenceIndex = 1, descriptionIndex = 2,
       debitIndex = 3, creditIndex = 4, balanceIndex = 5 \<rparr>"
  by (simp add: resolve_roles_def string_eval)

lemma example_hasDate:
  "hasDate [''01/03/2024'', ''ABC12345'', ''Shop payment'', ''100.00'', [], ''900.00'']"
  by (simp add: hasDate_def dateRegex_def js_at_def rx_eval)

lemma example_finalRows:
  "finalRows [[''01/03/2024'', ''ABC12345'', ''Shop payment'', ''100.00'', [], ''900.00'']]
   = [[''01/03/2024'', ''ABC12345'', ''Shop payment'', ''100.00'', [], ''900.00'']]"
  by (simp add: finalRows_def boilerplateRegex_def nonblank_def string_eval rx_eval)

lemma example_fields:
  "parseDateFlexible ''01/03/2024'' = ''2024-03-01''"
  "fixReference ''ABC12345'' = ''ABC12345''"
  "parseAmount ''100.00'' = 100"
  "parseAmount [] = 0"
  "parseAmount ''900.00'' = 900"
  by (simp_all add: date_eval amount_eval fixReference_def)

lemma example_assemble:
  "assemble \<lparr> bookDateIndex = 0, valueDateIndex = - 1, referenceIndex = 1, descriptionIndex = 2,
              debitIndex = 3, creditIndex = 4, balanceIndex = 5 \<rparr>
     [''01/03/2024'', ''ABC12345'', ''Shop payment'', ''100.00'', [], ''900.00'']
   = \<lparr> bookDate = ''2024-03-01'', valueDate = None, reference = ''ABC12345'',
       description = ''Shop payment'', debit = 100, credit = 0, closingBalance = Some 900 \<rparr>"
  by (simp add: assemble_def get_cell_def example_trims example_fields Let_def)

text \<open>
  Claim C2. For a table document containing exactly one table whose first row is
  ["Book Date","Reference","Description","Debit","Credit","Balance"] and whose only other
  row is ["01/03/2024","ABC12345","Shop payment","100.00","","900.00"], the extraction
  pipeline returns exactly one transaction with bookDate "2024-03-01", no valueDate,
  reference "ABC12345", description "Shop payment", debit 100.00, credit 0 and
  closingBalance 900.00 (together with the headers and the one row it was built from).
\<close>

theorem parseWord_example:
  "parseWord (Document
     [[[[''Book Date''], [''Reference''], [''Description''], [''Debit''], [''Credit''], [''Balance'']],
       [[''01/03/2024''], [''ABC12345''], [''Shop payment''], [''100.00''], [[]], [''900.00'']]]])
   = Inr \<lparr> headers = [''Book Date'', ''Reference'', ''Description'', ''Debit'', ''Credit'', ''Balance''],
           rows = [[''01/03/2024'', ''ABC12345'', ''Shop payment'', ''100.00'', [], ''900.00'']],
           transactions =
             [\<lparr> bookDate = ''2024-03-01'', valueDate = None, reference = ''ABC12345'',
                description = ''Shop payment'', debit = 100, credit = 0,
                closingBalance = Some 900 \<rparr>] \<rparr>"
  by (simp add: parseWord_def example_scan Let_def example_trims example_words example_roles
        max_length_def js_at_def upt_rec example_hasDate example_finalRows parseTableData_def
        example_assemble)


subsection \<open>PDF input\<close>

text \<open>
  Claim C4, as stated: for every input file whose declared MIME type is application/pdf or
  whose filename ends in .pdf, parseFile returns a ParsedTable built by the line-splitting
  fallback. It does not: the PDF reader of the source throws for every buffer, so a file
  with one header line and one data line gives the error and no table.
\<close>

theorem parseFile_pdf_counterexample:
  "parseFile \<lparr> file_type = ''application/pdf'', file_name = ''statement.pdf'',
               file_bytes = [], as_docx = NoDocumentXml, as_sheet = [] \<rparr>
   = Inl PdfUnavailable"
  by (simp add: parseFile_def parsePDF_def pdfParse_def)

text \<open>
  Claim C4, amended: for every input file whose declared MIME type is application/pdf or
  whose lower-cased filename ends in .pdf, parseFile fails with the error that PDF
  parsing is not available; the line-splitting fallback is never reached.
\<close>

theorem parseFile_pdf_unavailable:
  "file_type f = ''application/pdf'' \<or> endsWith (toLowerCase (file_name f)) ''.pdf''
   \<Longrightarrow> parseFile f = Inl PdfUnavailable"
  by (simp add: parseFile_def parsePDF_def pdfParse_def Let_def)

theorem parseFile_pdf_unavailable_witness:
  "endsWith (toLowerCase ''Statement.PDF'') ''.pdf'' \<and>
   parseFile \<lparr> file_type = [], file_name = ''Statement.PDF'',
               file_bytes = [], as_docx = NoDocumentXml, as_sheet = [] \<rparr>
   = Inl PdfUnavailable"
proof -
  have name: "endsWith (toLowerCase ''Statement.PDF'') ''.pdf''"
    by (simp add: string_eval)
  then show ?thesis
    using parseFile_pdf_unavailable
      [of "\<lparr> file_type = [], file_name = ''Statement.PDF'',
               file_bytes = [], as_docx = NoDocumentXml, as_sheet = [] \<rparr>"]
    by simp
qed

subsection \<open>Tables without a header row\<close>

lemma find_header_none:
  "\<forall>r \<in> set rs. row_score r = 0 \<Longrightarrow> find_header rs i 0 (- 1) = (0, - 1)"
  by (induction rs arbitrary: i) auto

lemma scan_table_headerless:
  "\<forall>r \<in> set (take 10 (map (map getCellText) tbl)). row_score r = 0 \<Longrightarrow> scan_table st tbl = st"
  by (simp add: scan_table_def Let_def find_header_none)

lemma scan_tables_headerless:
  "\<forall>tbl \<in> set tbls. \<forall>r \<in> set (take 10 (map (map getCellText) tbl)). row_score r = 0
   \<Longrightarrow> foldl scan_table st tbls = st"
  by (induction tbls arbitrary: st) (simp_all add: scan_table_headerless)

lemma headerless_example_cells:
  "getCellText [''12 March''] = ''12 March''" "getCellText [''Coffee''] = ''Coffee''"
  "getCellText [''4.50''] = ''4.50''" "getCellText [''13 March''] = ''13 March''"
  "getCellText [''Tea''] = ''Tea''" "getCellText [''3.00''] = ''3.00''"
  "getCellText [''Page''] = ''Page''" "getCellText [''1''] = ''1''"
  by (simp_all add: getCellText_def string_eval)

lemma headerless_example_scores:
  "row_score [''12 March'', ''Coffee'', ''4.50''] = 0"
  "row_score [''13 March'', ''Tea'', ''3.00''] = 0"
  "row_score [''Page'', ''1''] = 0"
  by (simp_all add: row_score_def headerKeywords_def string_eval)

lemma headerless_example_nonblank: "nonblank ''12 March''" "nonblank ''13 March''"
  by (simp_all add: nonblank_def string_eval)

text \<open>
  Claim C8, as stated: for a table document whose tables contain non-blank data rows but
  in which no row scores above 0 on the header keywords, extraction does not fail and
  returns a table with the generic headers Column 1..N. It fails: a table without a
  header row is skipped before its rows are merged, so for the one table with the
  non-blank rows ["12 March","Coffee","4.50"] and ["13 March","Tea","3.00"] the merged
  row set is empty and the result is the error "No transactions found across tables".
\<close>

theorem parseWord_headerless_example:
  "list_ex nonblank [''12 March'', ''Coffee'', ''4.50''] \<and>
   list_ex nonblank [''13 March'', ''Tea'', ''3.00''] \<and>
   row_score [''12 March'', ''Coffee'', ''4.50''] = 0 \<and>
   row_score [''13 March'', ''Tea'', ''3.00''] = 0 \<and>
   parseWord (Document
     [[[[''12 March''], [''Coffee''], [''4.50'']], [[''13 March''], [''Tea''], [''3.00'']]]])
   = Inl NoTransactionsFound"
proof -
  have "scan_table \<lparr> chosenHeaders = [], mergedRows = [], globalBestScore = 0 \<rparr>
      [[[''12 March''], [''Coffee''], [''4.50'']], [[''13 March''], [''Tea''], [''3.00'']]]
    = \<lparr> chosenHeaders = [], mergedRows = [], globalBestScore = 0 \<rparr>"
    by (rule scan_table_headerless)
       (simp add: headerless_example_cells headerless_example_scores)
  then show ?thesis
    by (simp add: parseWord_def headerless_example_scores headerless_example_nonblank)
qed

text \<open>
  Claim C8, amended: for a table document with at least one table in which no row among
  the first ten of any table scores above 0 on the header keyword set (no table yields a
  header), whatever its data rows are, extraction fails with the error "No transactions
  found across tables"; every table is skipped, no generic column labels are synthesized
  and no ParsedTable is returned.
\<close>

theorem parseWord_headerless:
  "tbls \<noteq> [] \<Longrightarrow>
   \<forall>tbl \<in> set tbls. \<forall>r \<in> set (take 10 (map (map getCellText) tbl)). row_score r = 0 \<Longrightarrow>
   parseWord (Document tbls) = Inl NoTransactionsFound"
  by (simp add: parseWord_def scan_tables_headerless)

theorem parseWord_headerless_witness:
  "parseWord (Document
     [[[[''Page''], [''1'']]],
      [[[''12 March''], [''Coffee''], [''4.50'']], [[''13 March''], [''Tea''], [''3.00'']]]])
   = Inl NoTransactionsFound"
proof -
  let ?tbls = "[[[[''Page''], [''1'']]],
      [[[''12 March''], [''Coffee''], [''4.50'']], [[''13 March''], [''Tea''], [''3.00'']]]]"
  have "\<forall>tbl \<in> set ?tbls. \<forall>r \<in> set (take 10 (map (map getCellText) tbl)). row_score r = 0"
    by (simp add: headerless_example_cells headerless_example_scores)
  then show ?thesis
    using parseWord_headerless [of ?tbls] by simp
qed

subsection \<open>Character classes\<close>

lemma digit_not_space: "is_digit c \<Longrightarrow> \<not> is_space c"
  by (auto simp: is_digit_def is_space_def)

lemma alpha_not_space: "is_alpha c \<Longrightarrow> \<not> is_space c"
  by (auto simp: is_alpha_def is_upper_def is_lower_def is_space_def)

lemma blank_classes:
  "is_space CHR '' ''" "\<not> is_digit CHR '' ''" "\<not> is_alpha CHR '' ''"
  "\<not> is_digit CHR ''-''" "is_digit CHR ''0''" "is_digit CHR ''1''" "is_digit CHR ''2''"
  by (simp_all add: char_eval)

lemma takeWhile_stop:
  "list_all P xs \<Longrightarrow> \<not> P c \<Longrightarrow> takeWhile P (xs @ c # r) = xs"
  by (induction xs) auto

lemma dropWhile_stop:
  "list_all P xs \<Longrightarrow> \<not> P c \<Longrightarrow> dropWhile P (xs @ c # r) = c # r"
  by (induction xs) auto

lemma trim_id: "s \<noteq> [] \<Longrightarrow> \<not> is_space (hd s) \<Longrightarrow> \<not> is_space (last s) \<Longrightarrow> trim s = s"
proof -
  assume s: "s \<noteq> []" "\<not> is_space (hd s)" "\<not> is_space (last s)"
  then have front: "dropWhile is_space s = s"
    by (simp add: dropWhile_eq_self_iff)
  from s have "dropWhile is_space (rev s) = rev s"
    by (simp add: dropWhile_eq_self_iff hd_rev)
  with front show ?thesis by (simp add: trim_def)
qed

lemma collapse_from_word:
  "list_all (\<lambda>c. \<not> is_space c) (x # xs) \<Longrightarrow>
   collapse_from b (x # xs @ r) = x # xs @ collapse_from False r"
  by (induction xs arbitrary: x b) auto

subsection \<open>What the date patterns return\<close>

lemma padStart2_digits:
  "d \<noteq> [] \<Longrightarrow> length d \<le> 2 \<Longrightarrow> list_all is_digit d \<Longrightarrow>
   length (padStart2 d) = 2 \<and> list_all is_digit (padStart2 d)"
  by (cases d) (auto simp: padStart2_def blank_classes list_all_iff)

lemma iso_shape_build:
  "length y = 4 \<Longrightarrow> list_all is_digit y \<Longrightarrow> length m = 2 \<Longrightarrow> list_all is_digit m \<Longrightarrow>
   length d = 2 \<Longrightarrow> list_all is_digit d \<Longrightarrow> iso_shape (y @ ''-'' @ m @ ''-'' @ d)"
  by (simp add: iso_shape_def iso_prefix_def nth_append)

lemma month_of_build:
  "length y = 4 \<Longrightarrow> length m = 2 \<Longrightarrow> month_of (y @ ''-'' @ m @ ''-'' @ d) = digits_val m"
  by (simp add: month_of_def)

lemma month_table_values:
  "first_prefix month_map low
     \<in> set [''01'', ''02'', ''03'', ''04'', ''05'', ''06'', ''07'', ''08'', ''09'', ''10'', ''11'', ''12'']"
  by (simp add: month_map_def)

lemma monthNameToNumber_range:
  "length (monthNameToNumber mn) = 2 \<and> list_all is_digit (monthNameToNumber mn) \<and>
   1 \<le> digits_val (monthNameToNumber mn) \<and> digits_val (monthNameToNumber mn) \<le> 12"
  using month_table_values [of "toLowerCase mn"]
  by (auto simp: monthNameToNumber_def digits_val_def digit_val_def char_eval)

subsection \<open>Unknown month names\<close>

lemma first_prefix_default:
  "\<forall>k \<in> set (map fst kvs). \<not> startsWith low k \<Longrightarrow> first_prefix kvs low = ''01''"
  by (induction kvs) auto

lemma spaced_date_raw:
  assumes d: "d \<noteq> []" "list_all is_digit d"
    and w: "w \<noteq> []" "list_all is_alpha w"
    and y: "y \<noteq> []" "list_all is_digit y"
  shows "collapse_ws (trim (d @ CHR '' '' # w @ CHR '' '' # y)) = d @ CHR '' '' # w @ CHR '' '' # y"
proof -
  let ?s = "d @ CHR '' '' # w @ CHR '' '' # y"
  from d obtain d0 ds where dd: "d = d0 # ds" by (cases d) auto
  from w obtain w0 ws where ww: "w = w0 # ws" by (cases w) auto
  from y obtain y0 ys where yy: "y = y0 # ys" by (cases y) auto
  have nd: "list_all (\<lambda>c. \<not> is_space c) (d0 # ds)"
    using d dd by (auto simp: list_all_iff digit_not_space)
  have nw: "list_all (\<lambda>c. \<not> is_space c) (w0 # ws)"
    using w ww by (auto simp: list_all_iff alpha_not_space)
  have ny: "list_all (\<lambda>c. \<not> is_space c) (y0 # ys)"
    using y yy by (auto simp: list_all_iff digit_not_space)
  have "\<not> is_space (hd ?s)" using nd dd by simp
  moreover have "\<not> is_space (last ?s)" using ny yy by (auto simp: list_all_iff)
  ultimately have t: "trim ?s = ?s" by (intro trim_id) simp_all
  have c3: "collapse_from True (y0 # ys @ []) = y0 # ys @ collapse_from False []"
    by (rule collapse_from_word [OF ny])
  have c2: "collapse_from True (w0 # ws @ CHR '' '' # y) = w0 # ws @ collapse_from False (CHR '' '' # y)"
    by (rule collapse_from_word [OF nw])
  have c1: "collapse_from False (d0 # ds @ CHR '' '' # w @ CHR '' '' # y)
      = d0 # ds @ collapse_from False (CHR '' '' # w @ CHR '' '' # y)"
    by (rule collapse_from_word [OF nd])
  have sp: "collapse_from False (CHR '' '' # r) = CHR '' '' # collapse_from True r" for r
    by (simp add: blank_classes)
  have "collapse_from False ?s = ?s"
    unfolding dd append_Cons c1 sp
    unfolding ww append_Cons c2 sp
    using c3 by (simp add: yy)
  with t show ?thesis by (simp add: collapse_ws_def)
qed

lemma spaced_date_match:
  assumes d: "d \<noteq> []" "length d \<le> 2" "list_all is_digit d"
    and w: "3 \<le> length w" "list_all is_alpha w"
    and y: "2 \<le> length y" "length y \<le> 4" "list_all is_digit y"
  shows "match_ymd (d @ CHR '' '' # w @ CHR '' '' # y) = None"
    and "match_dmy (d @ CHR '' '' # w @ CHR '' '' # y) = None"
    and "match_long (d @ CHR '' '' # w @ CHR '' '' # y) = Some (d, w, y)"
proof -
  let ?s = "d @ CHR '' '' # w @ CHR '' '' # y"
  have td: "takeWhile is_digit ?s = d" and dd: "dropWhile is_digit ?s = CHR '' '' # w @ CHR '' '' # y"
    using d by (simp_all add: takeWhile_stop dropWhile_stop blank_classes)
  from w obtain w0 ws where ww: "w = w0 # ws" by (cases w) auto
  with w have w0: "\<not> is_space w0" by (simp add: alpha_not_space)
  from y obtain y0 ys where yy: "y = y0 # ys" by (cases y) auto
  with y have y0: "\<not> is_space y0" by (simp add: digit_not_space)
  have ds: "dropWhile is_space (w @ CHR '' '' # y) = w @ CHR '' '' # y"
    using ww w0 by simp
  have tw: "takeWhile is_alpha (w @ CHR '' '' # y) = w"
    and dw: "dropWhile is_alpha (w @ CHR '' '' # y) = CHR '' '' # y"
    using w by (simp_all add: takeWhile_stop dropWhile_stop blank_classes)
  have dy: "dropWhile is_space y = y"
    using yy y0 by simp
  show "match_ymd ?s = None"
    using d by (simp add: match_ymd_def td)
  show "match_dmy ?s = None"
    using d by (simp add: match_dmy_def td dd is_date_sep_def)
  show "match_long ?s = Some (d, w, y)"
    using d w y by (simp add: match_long_def td dd ds tw dw dy blank_classes Let_def)
qed

text \<open>
  Claim C10. For every input "D W YYYY", where D is one or two digits, W is a word of three
  or more letters whose lower-cased form starts with none of the keys of the month table,
  and YYYY is four digits, the date normalizer does not return the input unchanged: it
  returns "YYYY-01-DD", with the day zero-padded and the unknown word read as month 01.
\<close>

theorem unknown_month_is_january:
  assumes "d \<noteq> []" "length d \<le> 2" "list_all is_digit d"
    and "3 \<le> length w" "list_all is_alpha w"
    and "\<forall>k \<in> set (map fst month_map). \<not> startsWith (toLowerCase w) k"
    and "length y = 4" "list_all is_digit y"
  shows "parseDateFlexible (d @ '' '' @ w @ '' '' @ y) = y @ ''-01-'' @ padStart2 d \<and>
         parseDateFlexible (d @ '' '' @ w @ '' '' @ y) \<noteq> d @ '' '' @ w @ '' '' @ y"
proof -
  let ?s = "d @ CHR '' '' # w @ CHR '' '' # y"
  have w1: "w \<noteq> []" and y1: "y \<noteq> []" using assms by auto
  have raw: "collapse_ws (trim ?s) = ?s"
    using assms w1 y1 by (intro spaced_date_raw)
  have m: "match_ymd ?s = None" "match_dmy ?s = None" "match_long ?s = Some (d, w, y)"
    using assms by (simp_all add: spaced_date_match)
  have jan: "monthNameToNumber w = ''01''"
    using assms(6) by (simp add: monthNameToNumber_def first_prefix_default)
  have res: "parseDateFlexible ?s = y @ ''-01-'' @ padStart2 d"
    using assms(1,7) by (simp add: parseDateFlexible_def raw m jan)
  have "is_digit ((y @ ''-01-'' @ padStart2 d) ! length d)"
    using assms(2,7,8) by (simp add: nth_append list_all_length)
  moreover have "\<not> is_digit (?s ! length d)"
    by (simp add: nth_append blank_classes)
  ultimately have "y @ ''-01-'' @ padStart2 d \<noteq> ?s" by metis
  with res show ?thesis by simp
qed

theorem unknown_month_is_january_witness:
  "parseDateFlexible ''3 Foo 2024'' = ''2024-01-03'' \<and>
   parseDateFlexible ''3 Foo 2024'' \<noteq> ''3 Foo 2024''"
proof -
  have keys: "\<forall>k \<in> set (map fst month_map). \<not> startsWith (toLowerCase ''Foo'') k"
    by (simp add: month_map_def string_eval)
  have cls: "list_all is_digit ''3''" "list_all is_alpha ''Foo''" "list_all is_digit ''2024''"
    by (simp_all add: char_eval)
  show ?thesis
    using unknown_month_is_january [of "''3''" "''Foo''" "''2024''"] keys cls
    by (simp add: padStart2_def)
qed


subsection \<open>Dates written with digits and with month names\<close>

lemma date_sep_classes: "is_date_sep a \<Longrightarrow> \<not> is_digit a \<and> \<not> is_space a"
  by (auto simp: is_date_sep_def char_eval)

lemma collapse_word:
  "w \<noteq> [] \<Longrightarrow> list_all (\<lambda>c. \<not> is_space c) w \<Longrightarrow>
   collapse_from b (w @ r) = w @ collapse_from False r"
  using collapse_from_word [of "hd w" "tl w" b r] by (cases w) simp_all

lemma collapse_gap_rest: "list_all is_space g \<Longrightarrow> collapse_from True (g @ r) = collapse_from True r"
  by (induction g) auto

lemma collapse_gap:
  "g \<noteq> [] \<Longrightarrow> list_all is_space g \<Longrightarrow>
   collapse_from False (g @ r) = CHR '' '' # collapse_from True r"
  by (cases g) (simp_all add: collapse_gap_rest)

lemma trim_padded:
  assumes "list_all is_space pre" "list_all is_space post"
    and "core \<noteq> []" "\<not> is_space (hd core)" "\<not> is_space (last core)"
  shows "trim (pre @ core @ post) = core"
proof -
  have front: "dropWhile is_space (pre @ core @ post) = core @ post"
    using assms(1,3,4) by (cases core) (simp_all add: list_all_iff)
  from assms(3) obtain c cs where rc: "rev core = c # cs"
    by (cases "rev core") auto
  then have "c = last core"
    using assms(3) hd_rev [of core] by simp
  with assms(5) have "\<not> is_space c" by simp
  moreover have "list_all is_space (rev post)"
    using assms(2) by (simp add: list_all_iff)
  ultimately have "dropWhile is_space (rev post @ rev core) = rev core"
    unfolding rc by (rule dropWhile_stop [rotated])
  then show ?thesis
    by (simp add: trim_def front)
qed

lemma numeric_date_match:
  assumes y: "length y = 4" "list_all is_digit y"
    and m: "m \<noteq> []" "length m \<le> 2" "list_all is_digit m"
    and d: "d \<noteq> []" "length d \<le> 2" "list_all is_digit d"
    and seps: "is_date_sep a" "is_date_sep b"
  shows "match_ymd (y @ a # m @ b # d) = Some (y, m, d)"
    and "match_ymd (d @ a # m @ b # y) = None"
    and "match_dmy (d @ a # m @ b # y) = Some (d, m, y)"
proof -
  have na: "\<not> is_digit a" and nb: "\<not> is_digit b"
    using seps date_sep_classes by blast+
  have t1: "takeWhile is_digit (y @ a # m @ b # d) = y"
    and d1: "dropWhile is_digit (y @ a # m @ b # d) = a # m @ b # d"
    using y na by (simp_all add: takeWhile_stop dropWhile_stop)
  have t2: "takeWhile is_digit (m @ b # r) = m" and d2: "dropWhile is_digit (m @ b # r) = b # r" for r
    using m nb by (simp_all add: takeWhile_stop dropWhile_stop)
  have t3: "takeWhile is_digit (d @ a # m @ b # y) = d"
    and d3: "dropWhile is_digit (d @ a # m @ b # y) = a # m @ b # y"
    using d na by (simp_all add: takeWhile_stop dropWhile_stop)
  show "match_ymd (y @ a # m @ b # d) = Some (y, m, d)"
    using y m d seps by (simp add: match_ymd_def t1 d1 t2 d2 Let_def)
  show "match_ymd (d @ a # m @ b # y) = None"
    using d by (simp add: match_ymd_def t3 Let_def)
  show "match_dmy (d @ a # m @ b # y) = Some (d, m, y)"
    using y m d seps by (simp add: match_dmy_def t3 d3 t2 d2 Let_def)
qed

lemma digits_val_padStart2:
  "d \<noteq> [] \<Longrightarrow> length d \<le> 2 \<Longrightarrow> digits_val (padStart2 d) = digits_val d"
proof -
  assume d: "d \<noteq> []" "length d \<le> 2"
  then have "(\<exists>a. d = [a]) \<or> (\<exists>a b. d = [a, b])"
    by (cases d; cases "tl d") auto
  then show ?thesis
    by (auto simp: padStart2_def digits_val_def digit_val_def)
qed

lemma day_of_build:
  "length y = 4 \<Longrightarrow> length m = 2 \<Longrightarrow> length d = 2 \<Longrightarrow>
   day_of (y @ ''-'' @ m @ ''-'' @ d) = digits_val d"
  by (simp add: day_of_def)

text \<open>What a date of four-digit year \<open>y\<close>, two-digit month \<open>mm\<close> and day digits \<open>d\<close>
  looks like once the day is padded.\<close>

lemma padded_date:
  assumes "length y = 4" "list_all is_digit y" "length mm = 2" "list_all is_digit mm"
    and "d \<noteq> []" "length d \<le> 2" "list_all is_digit d"
  shows "iso_shape (y @ ''-'' @ mm @ ''-'' @ padStart2 d)"
    and "month_of (y @ ''-'' @ mm @ ''-'' @ padStart2 d) = digits_val mm"
    and "day_of (y @ ''-'' @ mm @ ''-'' @ padStart2 d) = digits_val d"
proof -
  note p = padStart2_digits [OF assms(5-7)]
  show "iso_shape (y @ ''-'' @ mm @ ''-'' @ padStart2 d)"
    using assms(1-4) p by (intro iso_shape_build) auto
  show "month_of (y @ ''-'' @ mm @ ''-'' @ padStart2 d) = digits_val mm"
    using assms(1,3) by (intro month_of_build) auto
  show "day_of (y @ ''-'' @ mm @ ''-'' @ padStart2 d) = digits_val d"
    using assms(1,3,5,6) p day_of_build [of y mm "padStart2 d"]
    by (simp add: digits_val_padStart2)
qed

text \<open>
  Claim C5, as stated: for every string matching one of the three date patterns the date
  normalizer returns YYYY-MM-DD with month in [01,12] and day in [01,31]. The digits of a
  numeric date are copied without a range check: "2024-13-45" matches the first pattern
  and is returned as it is, with month 13 and day 45. A year of three digits is copied
  too: "3 Foo 123" matches the third pattern and gives "123-01-03".
\<close>

theorem parseDateFlexible_range_counterexample:
  "parseDateFlexible ''2024-13-45'' = ''2024-13-45'' \<and>
   \<not> valid_iso_date (parseDateFlexible ''2024-13-45'') \<and>
   parseDateFlexible ''3 Foo 123'' = ''123-01-03'' \<and>
   \<not> valid_iso_date (parseDateFlexible ''3 Foo 123'')"
  by (simp add: date_eval valid_iso_date_def iso_shape_def iso_prefix_def month_of_def
        day_of_def)

text \<open>
  Claim C5, amended. Let a string consist of white space (possibly none), a date, and
  white space (possibly none).
  \<^item> If the date is YYYY[-/]M[-/]D or D[-/]M[-/]YYYY (a year of four digits, a month and a
    day of one or two digits), the date normalizer returns YYYY-MM-DD, where MM and DD are
    the month and day digits of the input zero-padded to two places and YYYY its year
    digits. Nothing is range-checked: the month of the result lies in [01,12] and its day
    in [01,31] exactly when the month and day numbers of the input do.
  \<^item> If the date is D MonthName Y (a day of one or two digits, white space, three or more
    letters, white space, a year of two to four digits), the normalizer returns
    Y'-MM-DD, where Y' is 20Y for a year of two digits and Y otherwise, MM is the entry of
    the month table for the name (01 for an unknown name) and DD the zero-padded day
    digits. With a year of two or four digits this has the form YYYY-MM-DD, its month
    lies in [01,12], and its day lies in [01,31] exactly when the day number of the input
    does.
\<close>

theorem parseDateFlexible_digits:
  assumes pad: "list_all is_space pre" "list_all is_space post"
    and y: "length y = 4" "list_all is_digit y"
    and m: "m \<noteq> []" "length m \<le> 2" "list_all is_digit m"
    and d: "d \<noteq> []" "length d \<le> 2" "list_all is_digit d"
    and seps: "is_date_sep a" "is_date_sep b"
    and w: "3 \<le> length w" "list_all is_alpha w"
    and gaps: "g \<noteq> []" "list_all is_space g" "h \<noteq> []" "list_all is_space h"
    and yr: "2 \<le> length yr" "length yr \<le> 4" "list_all is_digit yr"
  shows "parseDateFlexible (pre @ y @ a # m @ b # d @ post)
           = y @ ''-'' @ padStart2 m @ ''-'' @ padStart2 d
       \<and> parseDateFlexible (pre @ d @ a # m @ b # y @ post)
           = y @ ''-'' @ padStart2 m @ ''-'' @ padStart2 d
       \<and> iso_shape (y @ ''-'' @ padStart2 m @ ''-'' @ padStart2 d)
       \<and> month_of (y @ ''-'' @ padStart2 m @ ''-'' @ padStart2 d) = digits_val m
       \<and> day_of (y @ ''-'' @ padStart2 m @ ''-'' @ padStart2 d) = digits_val d
       \<and> valid_iso_date (y @ ''-'' @ padStart2 m @ ''-'' @ padStart2 d)
           = (1 \<le> digits_val m \<and> digits_val m \<le> 12 \<and> 1 \<le> digits_val d \<and> digits_val d \<le> 31)
       \<and> parseDateFlexible (pre @ d @ g @ w @ h @ yr @ post)
           = (if length yr = 2 then ''20'' @ yr else yr)
               @ ''-'' @ monthNameToNumber w @ ''-'' @ padStart2 d
       \<and> (length yr \<noteq> 3 \<longrightarrow>
            iso_shape (parseDateFlexible (pre @ d @ g @ w @ h @ yr @ post))
          \<and> 1 \<le> month_of (parseDateFlexible (pre @ d @ g @ w @ h @ yr @ post))
          \<and> month_of (parseDateFlexible (pre @ d @ g @ w @ h @ yr @ post)) \<le> 12
          \<and> day_of (parseDateFlexible (pre @ d @ g @ w @ h @ yr @ post)) = digits_val d
          \<and> valid_iso_date (parseDateFlexible (pre @ d @ g @ w @ h @ yr @ post))
              = (1 \<le> digits_val d \<and> digits_val d \<le> 31))"
proof -
  let ?iso = "y @ ''-'' @ padStart2 m @ ''-'' @ padStart2 d"
  let ?yy = "if length yr = 2 then ''20'' @ yr else yr"
  let ?named = "?yy @ ''-'' @ monthNameToNumber w @ ''-'' @ padStart2 d"
  from y obtain y0 ys where yc: "y = y0 # ys" by (cases y) auto
  from d obtain d0 ds where dc: "d = d0 # ds" by (cases d) auto
  from w obtain w0 ws where wc: "w = w0 # ws" by (cases w) auto
  from yr obtain r0 rs where rc: "yr = r0 # rs" by (cases yr) auto
  have nsy: "list_all (\<lambda>c. \<not> is_space c) y" and nsm: "list_all (\<lambda>c. \<not> is_space c) m"
    and nsd: "list_all (\<lambda>c. \<not> is_space c) d" and nsr: "list_all (\<lambda>c. \<not> is_space c) yr"
    using y m d yr by (auto simp: list_all_iff digit_not_space)
  have nsw: "list_all (\<lambda>c. \<not> is_space c) w"
    using w by (auto simp: list_all_iff alpha_not_space)
  have nsa: "\<not> is_space a" and nsb: "\<not> is_space b"
    using seps date_sep_classes by blast+
  have lasts: "\<not> is_space (last d)" "\<not> is_space (last y)" "\<not> is_space (last yr)"
    using nsd nsy nsr d(1) yc rc by (auto simp: list_all_iff)
  have heads: "\<not> is_space (hd d)" "\<not> is_space (hd y)"
    using nsd nsy dc yc by auto

  \<comment> \<open>year, month, day\<close>
  let ?c1 = "y @ a # m @ b # d"
  have "list_all (\<lambda>c. \<not> is_space c) ?c1"
    using nsy nsm nsd nsa nsb by simp
  then have c1: "collapse_ws ?c1 = ?c1"
    using collapse_word [of ?c1 False "[]"] yc by (simp add: collapse_ws_def)
  have "trim (pre @ ?c1 @ post) = ?c1"
    using pad heads(2) lasts(1) d(1) yc by (intro trim_padded) simp_all
  then have r1: "parseDateFlexible (pre @ y @ a # m @ b # d @ post) = ?iso"
    using c1 numeric_date_match(1) [OF y m d seps] yc
    by (simp add: parseDateFlexible_def)

  \<comment> \<open>day, month, year\<close>
  let ?c2 = "d @ a # m @ b # y"
  have "list_all (\<lambda>c. \<not> is_space c) ?c2"
    using nsy nsm nsd nsa nsb by simp
  then have c2: "collapse_ws ?c2 = ?c2"
    using collapse_word [of ?c2 False "[]"] dc by (simp add: collapse_ws_def)
  have "trim (pre @ ?c2 @ post) = ?c2"
    using pad heads(1) lasts(2) yc dc by (intro trim_padded) simp_all
  then have r2: "parseDateFlexible (pre @ d @ a # m @ b # y @ post) = ?iso"
    using c2 numeric_date_match(2,3) [OF y m d seps] dc
    by (simp add: parseDateFlexible_def)

  \<comment> \<open>day, month name, year\<close>
  let ?c3 = "d @ g @ w @ h @ yr"
  have "collapse_from False ?c3 = d @ collapse_from False (g @ w @ h @ yr)"
    using collapse_word [OF d(1) nsd] by simp
  also have "collapse_from False (g @ w @ h @ yr) = CHR '' '' # collapse_from True (w @ h @ yr)"
    using collapse_gap [OF gaps(1,2)] by simp
  also have "collapse_from True (w @ h @ yr) = w @ collapse_from False (h @ yr)"
    using collapse_word [of w True] nsw wc by simp
  also have "collapse_from False (h @ yr) = CHR '' '' # collapse_from True yr"
    using collapse_gap [OF gaps(3,4)] by simp
  also have "collapse_from True yr = yr"
    using collapse_word [of yr True "[]"] nsr rc by simp
  finally have c3: "collapse_ws ?c3 = d @ CHR '' '' # w @ CHR '' '' # yr"
    by (simp add: collapse_ws_def)
  have "trim (pre @ ?c3 @ post) = ?c3"
    using pad heads(1) lasts(3) dc rc by (intro trim_padded) simp_all
  then have r3: "parseDateFlexible (pre @ d @ g @ w @ h @ yr @ post) = ?named"
    using c3 spaced_date_match [OF d w yr] dc
    by (simp add: parseDateFlexible_def)

  note numeric = padded_date [OF y(1,2) _ _ d] padStart2_digits [OF m]
  have iso: "iso_shape ?iso" and mo: "month_of ?iso = digits_val m"
    and da: "day_of ?iso = digits_val d"
    using numeric by (simp_all add: digits_val_padStart2 [OF m(1,2)])
  have named: "iso_shape ?named \<and> 1 \<le> month_of ?named \<and> month_of ?named \<le> 12
      \<and> day_of ?named = digits_val d" if "length yr \<noteq> 3"
  proof -
    from that yr have yy: "length ?yy = 4" "list_all is_digit ?yy"
      by (auto simp: blank_classes)
    note mn = monthNameToNumber_range [of w]
    show ?thesis
      using padded_date [OF yy _ _ d, of "monthNameToNumber w"] mn by simp
  qed
  show ?thesis
    using r1 r2 r3 iso mo da named by (simp add: valid_iso_date_def)
qed

theorem parseDateFlexible_digits_witness:
  "parseDateFlexible '' 2024/3-7'' = ''2024-03-07'' \<and>
   parseDateFlexible '' 7/3-2024'' = ''2024-03-07'' \<and>
   valid_iso_date ''2024-03-07'' \<and>
   parseDateFlexible '' 7  Sept 24'' = ''2024-09-07'' \<and>
   valid_iso_date (parseDateFlexible '' 7  Sept 24'')"
proof -
  have cls: "list_all is_space '' ''" "list_all is_space []" "list_all is_digit ''2024''"
    "list_all is_digit ''3''" "list_all is_digit ''7''" "is_date_sep CHR ''/''"
    "is_date_sep CHR ''-''" "list_all is_alpha ''Sept''" "list_all is_space ''  ''"
    "list_all is_digit ''24''"
    by (simp_all add: char_eval)
  have vals: "digits_val ''3'' = 3" "digits_val ''7'' = 7" "padStart2 ''3'' = ''03''"
    "padStart2 ''7'' = ''07''" "monthNameToNumber ''Sept'' = ''09''"
    by (simp_all add: date_eval)
  show ?thesis
    using parseDateFlexible_digits [of "'' ''" "[]" "''2024''" "''3''" "''7''" "CHR ''/''"
        "CHR ''-''" "''Sept''" "''  ''" "'' ''" "''24''"] cls
    by (auto simp: vals)
qed

subsection \<open>Decimal digits\<close>

lemma below_ten: "n < 10 \<Longrightarrow> n \<in> {0, 1, 2, 3, 4, 5, 6, 7, 8, 9 :: nat}"
  by auto

lemma digit_char_is_digit: "n < 10 \<Longrightarrow> is_digit (digit_char n)"
  by (drule below_ten) (auto simp: digit_char_def char_eval)

lemma digit_val_digit_char: "n < 10 \<Longrightarrow> digit_val (digit_char n) = n"
  by (drule below_ten) (auto simp: digit_char_def digit_val_def)

lemma digits_val_snoc: "digits_val (ds @ [c]) = 10 * digits_val ds + digit_val c"
  by (simp add: digits_val_def)

lemma show_nat_digits: "list_all is_digit (show_nat n)"
  by (induction n rule: show_nat.induct)
     (subst show_nat.simps, simp add: digit_char_is_digit)

lemma show_nat_nonempty: "show_nat n \<noteq> []"
  by (subst show_nat.simps) simp

lemma digits_val_show_nat: "digits_val (show_nat n) = n"
proof (induction n rule: show_nat.induct)
  case (1 n)
  show ?case
  proof (cases "n < 10")
    case True
    then show ?thesis
      by (subst show_nat.simps) (simp add: digits_val_def digit_val_digit_char)
  next
    case False
    with 1 show ?thesis
      by (subst show_nat.simps) (simp add: digits_val_snoc digit_val_digit_char)
  qed
qed

lemma show_nat_inject: "show_nat a = show_nat b \<Longrightarrow> a = b"
  by (metis digits_val_show_nat)

lemma digits_then_stop:
  assumes "list_all is_digit xs" "list_all is_digit ys" "\<not> is_digit c"
    and "xs @ c # r1 = ys @ c # r2"
  shows "xs = ys \<and> r1 = r2"
proof -
  have "takeWhile is_digit (xs @ c # r1) = xs" "takeWhile is_digit (ys @ c # r2) = ys"
    using assms(1-3) by (simp_all add: takeWhile_stop)
  with assms(4) have "xs = ys" by simp
  with assms(4) show ?thesis by simp
qed

subsection \<open>The validator and zero amounts\<close>

lemma colon_not_digit: "\<not> is_digit CHR '':''"
  by (simp add: char_eval)

lemma tx_label_eq:
  "(tx_label j @ CHR '':'' # r1 = tx_label k @ CHR '':'' # r2) = (j = k \<and> r1 = r2)"
proof
  assume "tx_label j @ CHR '':'' # r1 = tx_label k @ CHR '':'' # r2"
  then have "show_nat (j + 1) @ CHR '':'' # r1 = show_nat (k + 1) @ CHR '':'' # r2"
    by (simp add: tx_label_def)
  then have "show_nat (j + 1) = show_nat (k + 1) \<and> r1 = r2"
    using digits_then_stop [OF show_nat_digits show_nat_digits colon_not_digit] by blast
  then show "j = k \<and> r1 = r2"
    using show_nat_inject [of "j + 1" "k + 1"] by simp
qed simp

lemma tx_label_inject: "(tx_label j = tx_label k) = (j = k)"
  using show_nat_inject [of "j + 1" "k + 1"] by (auto simp: tx_label_def)

lemma zero_message_of:
  "(tx_label k @ '': Both debit and credit are zero'' \<in> set (tx_errors num_str j t))
     = (j = k \<and> debit t = 0 \<and> credit t = 0)"
  by (auto simp: tx_errors_def tx_label_eq tx_label_inject)

text \<open>
  Claim C9. For every non-empty transaction list, the validator emits the error
  "Transaction i: Both debit and credit are zero" for the (1-indexed) position i if and
  only if the transaction at that position has debit 0 and credit 0, however the host
  prints numbers; so a transaction with debit 0 and credit 150.00 receives no such error.
\<close>

theorem zero_amounts_flagged:
  assumes "ts \<noteq> []" and "1 \<le> i" and "i \<le> length ts"
  shows "(''Transaction '' @ show_nat i @ '': Both debit and credit are zero''
            \<in> set (errors (validateTransactions num_str ts)))
         = (debit (ts ! (i - 1)) = 0 \<and> credit (ts ! (i - 1)) = 0)"
proof -
  from assms(2) have label: "''Transaction '' @ show_nat i = tx_label (i - 1)"
    by (simp add: tx_label_def)
  have "(tx_label (i - 1) @ '': Both debit and credit are zero''
           \<in> set (errors (validateTransactions num_str ts)))
      = (\<exists>t. (i - 1, t) \<in> set (enumerate 0 ts) \<and> debit t = 0 \<and> credit t = 0)"
    using assms(1)
    by (auto simp: validateTransactions_def Let_def zero_message_of split: prod.splits)
  also have "\<dots> = (debit (ts ! (i - 1)) = 0 \<and> credit (ts ! (i - 1)) = 0)"
    using assms(2,3) by (auto simp: in_set_enumerate_eq)
  finally show ?thesis
    using label by (metis append_assoc)
qed

theorem zero_amounts_flagged_witness:
  "''Transaction 1: Both debit and credit are zero''
     \<in> set (errors (validateTransactions numberToString
          [\<lparr> bookDate = ''2024-03-01'', valueDate = None, reference = ''R1'',
             description = ''Fee'', debit = 0, credit = 0, closingBalance = None \<rparr>,
           \<lparr> bookDate = ''2024-03-02'', valueDate = None, reference = ''R2'',
             description = ''Salary'', debit = 0, credit = 150.00, closingBalance = None \<rparr>]))
   \<and> ''Transaction 2: Both debit and credit are zero''
     \<notin> set (errors (validateTransactions numberToString
          [\<lparr> bookDate = ''2024-03-01'', valueDate = None, reference = ''R1'',
             description = ''Fee'', debit = 0, credit = 0, closingBalance = None \<rparr>,
           \<lparr> bookDate = ''2024-03-02'', valueDate = None, reference = ''R2'',
             description = ''Salary'', debit = 0, credit = 150.00, closingBalance = None \<rparr>]))"
proof -
  let ?ts = "[\<lparr> bookDate = ''2024-03-01'', valueDate = None, reference = ''R1'',
             description = ''Fee'', debit = 0, credit = 0, closingBalance = None \<rparr>,
           \<lparr> bookDate = ''2024-03-02'', valueDate = None, reference = ''R2'',
             description = ''Salary'', debit = 0, credit = 150.00, closingBalance = None \<rparr>]"
  have n: "show_nat 1 = ''1''" "show_nat 2 = ''2''"
    by (simp_all add: show_nat.simps digit_char_def)
  show ?thesis
    using zero_amounts_flagged [of ?ts 1 numberToString]
      zero_amounts_flagged [of ?ts 2 numberToString] n
    by simp
qed


subsection \<open>Amounts of assembled transactions\<close>
























end
